theory Spec2Isabelle
  imports Complex_Main
begin

section \<open>Python values\<close>

text \<open>
  The module \<^verbatim>\<open>mortgage_calculator.py\<close> is Python 2. Each of its three entry points
  decodes a JSON text, reads fields with \<^verbatim>\<open>float(...)\<close> and dictionary subscripts, and
  answers with a one- or two-entry dictionary. An exception that the function does not
  catch leaves it; the model returns it as \<open>Inl\<close>.
\<close>

datatype exn = ValueError | KeyError | TypeError | ZeroDivisionError | OverflowError

text \<open>
  A Python float is an IEEE double: a finite number, an infinity or a NaN. \<open>Fin x\<close> is
  the double whose value is the real \<open>x\<close>; the sign of a zero is not kept (no
  comparison and no exception of the module depends on it).
\<close>

datatype pyfloat = Fin real | PInf | NInf | NaN

text \<open>
  Rounding of a real to the nearest double, a tie to the even mantissa. The mantissa has
  53 bits; below \<open>2 powi (- 1022)\<close> the spacing stays \<open>2 powi (- 1074)\<close> (subnormal
  numbers); a result of magnitude \<open>2 ^ 1024\<close> or more is an infinity.
\<close>

definition round_half_even :: "real \<Rightarrow> int" where
  "round_half_even t =
     (let f = \<lfloor>t\<rfloor>; d = t - of_int f
      in if d < 1 / 2 then f else if 1 / 2 < d then f + 1 else if even f then f else f + 1)"

definition rnd :: "real \<Rightarrow> pyfloat" where
  "rnd x =
     (if x = 0 then Fin 0
      else
        let e = max \<lfloor>log 2 \<bar>x\<bar>\<rfloor> (- 1022);
            q = 2 powi (e - 52);
            y = of_int (round_half_even (x / q)) * q
        in if 2 ^ 1024 \<le> \<bar>y\<bar> then (if 0 < x then PInf else NInf) else Fin y)"

text \<open>
  Where Python raises instead of returning an infinity (the power, and \<^verbatim>\<open>float\<close> of an
  integer): the rounded value, or \<^verbatim>\<open>OverflowError\<close>.
\<close>

definition rnd_checked :: "real \<Rightarrow> exn + pyfloat" where
  "rnd_checked x = (case rnd x of Fin y \<Rightarrow> Inr (Fin y) | _ \<Rightarrow> Inl OverflowError)"

text \<open>
  The value \<^verbatim>\<open>json.loads\<close> returns, and the value \<^verbatim>\<open>json.dumps\<close> receives. A JSON
  number without fraction and exponent is a Python integer (\<open>JInt\<close>), any other a float
  (\<open>JNum\<close>). A dictionary is a list of its entries; its keys are looked up with
  \<open>map_of\<close>.
\<close>

datatype json =
    JNull
  | JBool bool
  | JInt int
  | JNum pyfloat
  | JStr string
  | JArr "json list"
  | JObj "(string \<times> json) list"

definition ebind :: "exn + 'a \<Rightarrow> ('a \<Rightarrow> exn + 'b) \<Rightarrow> exn + 'b" where
  "ebind m f = (case m of Inl e \<Rightarrow> Inl e | Inr x \<Rightarrow> f x)"

subsection \<open>Float arithmetic\<close>

text \<open>
  Sum, difference, product and quotient of two finite doubles are the exact result
  rounded. An integer operand of the module (\<^verbatim>\<open>500000\<close>, \<^verbatim>\<open>1\<close>, \<^verbatim>\<open>100\<close>) is
  converted exactly.
\<close>

fun fneg :: "pyfloat \<Rightarrow> pyfloat" where
  "fneg (Fin a) = Fin (- a)"
| "fneg PInf = NInf"
| "fneg NInf = PInf"
| "fneg NaN = NaN"

fun fadd :: "pyfloat \<Rightarrow> pyfloat \<Rightarrow> pyfloat" where
  "fadd (Fin a) (Fin b) = rnd (a + b)"
| "fadd NaN y = NaN"
| "fadd x NaN = NaN"
| "fadd PInf NInf = NaN"
| "fadd NInf PInf = NaN"
| "fadd PInf y = PInf"
| "fadd NInf y = NInf"
| "fadd (Fin a) y = y"

definition fsub :: "pyfloat \<Rightarrow> pyfloat \<Rightarrow> pyfloat" where
  "fsub x y = fadd x (fneg y)"

fun fpos :: "pyfloat \<Rightarrow> bool" where
  "fpos (Fin a) = (0 < a)"
| "fpos PInf = True"
| "fpos NInf = False"
| "fpos NaN = False"

fun fmul :: "pyfloat \<Rightarrow> pyfloat \<Rightarrow> pyfloat" where
  "fmul (Fin a) (Fin b) = rnd (a * b)"
| "fmul x y =
     (if x = NaN \<or> y = NaN \<or> x = Fin 0 \<or> y = Fin 0 then NaN
      else if fpos x = fpos y then PInf else NInf)"

text \<open>Python raises on a zero divisor before it looks at the dividend.\<close>

fun fdiv :: "pyfloat \<Rightarrow> pyfloat \<Rightarrow> exn + pyfloat" where
  "fdiv x (Fin b) =
     (if b = 0 then Inl ZeroDivisionError
      else case x of
        Fin a \<Rightarrow> Inr (rnd (a / b))
      | NaN \<Rightarrow> Inr NaN
      | PInf \<Rightarrow> Inr (if 0 < b then PInf else NInf)
      | NInf \<Rightarrow> Inr (if 0 < b then NInf else PInf))"
| "fdiv x NaN = Inr NaN"
| "fdiv (Fin a) y = Inr (Fin 0)"
| "fdiv x y = Inr NaN"

fun fle :: "pyfloat \<Rightarrow> pyfloat \<Rightarrow> bool" where
  "fle (Fin a) (Fin b) = (a \<le> b)"
| "fle NaN y = False"
| "fle x NaN = False"
| "fle NInf y = True"
| "fle PInf PInf = True"
| "fle PInf y = False"
| "fle (Fin a) PInf = True"
| "fle (Fin a) NInf = False"

fun flt :: "pyfloat \<Rightarrow> pyfloat \<Rightarrow> bool" where
  "flt (Fin a) (Fin b) = (a < b)"
| "flt NaN y = False"
| "flt x NaN = False"
| "flt PInf y = False"
| "flt NInf NInf = False"
| "flt NInf y = True"
| "flt (Fin a) PInf = True"
| "flt (Fin a) NInf = False"

fun fabs :: "pyfloat \<Rightarrow> pyfloat" where
  "fabs (Fin a) = Fin \<bar>a\<bar>"
| "fabs NInf = PInf"
| "fabs x = x"

definition odd_integer :: "real \<Rightarrow> bool" where
  "odd_integer e = (e = of_int \<lfloor>e\<rfloor> \<and> odd \<lfloor>e\<rfloor>)"

text \<open>
  \<^verbatim>\<open>v ** w\<close> on floats, with the special cases in the order CPython's \<^verbatim>\<open>float_pow\<close>
  takes them. In the general case the C library's \<^verbatim>\<open>pow\<close> is called; it is taken to
  return the exact power rounded. A result that overflows is an \<^verbatim>\<open>OverflowError\<close>, one
  that underflows is 0.
\<close>

definition fpow :: "pyfloat \<Rightarrow> pyfloat \<Rightarrow> exn + pyfloat" where
  "fpow v w =
     (if w = Fin 0 then Inr (Fin 1)
      else if v = NaN then Inr NaN
      else if w = NaN then Inr (if v = Fin 1 then Fin 1 else NaN)
      else if w = PInf \<or> w = NInf then
        (if fabs v = Fin 1 then Inr (Fin 1)
         else if (w = PInf) = flt (Fin 1) (fabs v) then Inr PInf
         else Inr (Fin 0))
      else case w of
        Fin e \<Rightarrow>
          (case v of
             PInf \<Rightarrow> Inr (if 0 < e then PInf else Fin 0)
           | NInf \<Rightarrow> Inr (if 0 < e then (if odd_integer e then NInf else PInf) else Fin 0)
           | Fin b \<Rightarrow>
               if b = 0 then (if e < 0 then Inl ZeroDivisionError else Inr (Fin 0))
               else if b < 0 then
                 (if e \<noteq> of_int \<lfloor>e\<rfloor> then Inl ValueError
                  else rnd_checked (b powi \<lfloor>e\<rfloor>))
               else rnd_checked (b powr e)
           | NaN \<Rightarrow> Inr NaN)
      | _ \<Rightarrow> Inr NaN)"

text \<open>
  \<^verbatim>\<open>round(x, 2)\<close> of Python 2 rounds the value of the double to the nearest hundredth,
  a tie away from zero, and returns the double nearest to that decimal; an infinity or a
  NaN is returned as it is.
\<close>

definition round2 :: "real \<Rightarrow> real" where
  "round2 x =
     (if 0 \<le> x then of_int \<lfloor>x * 100 + 1 / 2\<rfloor> / 100
      else - (of_int \<lfloor>- x * 100 + 1 / 2\<rfloor> / 100))"

fun fround2 :: "pyfloat \<Rightarrow> pyfloat" where
  "fround2 (Fin a) = rnd (round2 a)"
| "fround2 x = x"

subsection \<open>\<^verbatim>\<open>float(...)\<close> and subscripts\<close>

text \<open>
  \<^verbatim>\<open>float\<close> of a string: surrounding white space is dropped, then an optional sign,
  then \<^verbatim>\<open>nan\<close>, \<^verbatim>\<open>inf\<close> or \<^verbatim>\<open>infinity\<close> in any letter case, or a decimal numeral with
  an optional fraction and an optional exponent, which is rounded to the nearest double.
  Anything else is a \<^verbatim>\<open>ValueError\<close>.
\<close>

definition is_space :: "char \<Rightarrow> bool" where
  "is_space c = (c \<in> set [CHR '' '', CHR 0x09, CHR 0x0A, CHR 0x0B, CHR 0x0C, CHR 0x0D])"

definition strip :: "string \<Rightarrow> string" where
  "strip s = rev (dropWhile is_space (rev (dropWhile is_space s)))"

definition is_digit :: "char \<Rightarrow> bool" where
  "is_digit c = (c \<in> set ''0123456789'')"

definition digit_val :: "char \<Rightarrow> nat" where
  "digit_val c = of_char c - 48"

definition digits_val :: "string \<Rightarrow> nat" where
  "digits_val ds = foldl (\<lambda>acc c. 10 * acc + digit_val c) 0 ds"

definition lower :: "char \<Rightarrow> char" where
  "lower c =
     (case map_of (zip ''ABCDEFGHIJKLMNOPQRSTUVWXYZ'' ''abcdefghijklmnopqrstuvwxyz'') c of
        None \<Rightarrow> c
      | Some d \<Rightarrow> d)"

definition split_sign :: "string \<Rightarrow> bool \<times> string" where
  "split_sign s =
     (case s of
        [] \<Rightarrow> (False, [])
      | c # cs \<Rightarrow>
          if c = CHR ''-'' then (True, cs)
          else if c = CHR ''+'' then (False, cs)
          else (False, s))"

definition parse_exponent :: "string \<Rightarrow> int option" where
  "parse_exponent s =
     (case s of
        [] \<Rightarrow> Some 0
      | c # cs \<Rightarrow>
          if c = CHR ''e'' \<or> c = CHR ''E'' then
            (let (neg, ds) = split_sign cs in
             if ds \<noteq> [] \<and> list_all is_digit ds
             then Some (if neg then - int (digits_val ds) else int (digits_val ds))
             else None)
          else None)"

definition parse_decimal :: "string \<Rightarrow> real option" where
  "parse_decimal s =
     (let ip = takeWhile is_digit s;
          r1 = dropWhile is_digit s;
          (fp, r2) =
            (case r1 of
               [] \<Rightarrow> ([], [])
             | c # t \<Rightarrow>
                 if c = CHR ''.'' then (takeWhile is_digit t, dropWhile is_digit t)
                 else ([], r1))
      in if ip = [] \<and> fp = [] then None
         else case parse_exponent r2 of
           None \<Rightarrow> None
         | Some e \<Rightarrow>
             Some ((real (digits_val ip) + real (digits_val fp) / 10 ^ length fp) * 10 powi e))"

definition float_of_string :: "string \<Rightarrow> pyfloat option" where
  "float_of_string s =
     (let (neg, body) = split_sign (strip s);
          lo = map lower body
      in if lo = ''nan'' then Some NaN
         else if lo = ''inf'' \<or> lo = ''infinity'' then Some (if neg then NInf else PInf)
         else map_option (\<lambda>x. rnd (if neg then - x else x)) (parse_decimal body))"

text \<open>
  \<^verbatim>\<open>float(v)\<close> for a decoded JSON value: a float is itself, an integer is rounded to
  the nearest double, or is an \<^verbatim>\<open>OverflowError\<close> when it is too large for one, a
  boolean is 1 or 0, a string is parsed, and \<^verbatim>\<open>None\<close>, a list or a dictionary is a
  \<^verbatim>\<open>TypeError\<close>.
\<close>

fun py_float :: "json \<Rightarrow> exn + pyfloat" where
  "py_float (JNum x) = Inr x"
| "py_float (JInt n) = rnd_checked (of_int n)"
| "py_float (JBool b) = Inr (Fin (if b then 1 else 0))"
| "py_float (JStr s) =
     (case float_of_string s of None \<Rightarrow> Inl ValueError | Some x \<Rightarrow> Inr x)"
| "py_float v = Inl TypeError"

text \<open>
  \<^verbatim>\<open>request_parameter[key]\<close>: a \<^verbatim>\<open>KeyError\<close> when a dictionary lacks the key, a
  \<^verbatim>\<open>TypeError\<close> when the decoded request is not a dictionary.
\<close>

fun subscript :: "json \<Rightarrow> string \<Rightarrow> exn + json" where
  "subscript (JObj kvs) k = (case map_of kvs k of None \<Rightarrow> Inl KeyError | Some v \<Rightarrow> Inr v)"
| "subscript v k = Inl TypeError"

text \<open>\<^verbatim>\<open>key in request_parameter\<close>; the module evaluates it on dictionaries only.\<close>

fun has_key :: "json \<Rightarrow> string \<Rightarrow> bool" where
  "has_key (JObj kvs) k = (map_of kvs k \<noteq> None)"
| "has_key v k = False"

section \<open>The module\<close>

text \<open>A decimal literal of the module is the double nearest to it.\<close>

definition MIN_DOWN_PAYMENT_RATIO_FIRST_500K :: pyfloat where
  "MIN_DOWN_PAYMENT_RATIO_FIRST_500K = rnd (5 / 100)"

definition MIN_DOWN_PAYMENT_RATIO_OVER_500K :: pyfloat where
  "MIN_DOWN_PAYMENT_RATIO_OVER_500K = rnd (1 / 10)"

definition NUMBER_OF_PAYMENT_PER_YEAR :: "(string \<times> int) list" where
  "NUMBER_OF_PAYMENT_PER_YEAR = [(''weekly'', 52), (''biweekly'', 26), (''monthly'', 12)]"

text \<open>The one global the module mutates.\<close>

record state =
  MORTGAGE_INTEREST_RATE :: pyfloat

definition initial_state :: state where
  "initial_state = \<lparr>MORTGAGE_INTEREST_RATE = rnd (25 / 1000)\<rparr>"

text \<open>
  \<^verbatim>\<open>float(NUMBER_OF_PAYMENT_PER_YEAR[v])\<close>: a string, a number, a boolean or \<^verbatim>\<open>None\<close>
  that is not a key is a \<^verbatim>\<open>KeyError\<close>; a list or a dictionary is unhashable, a
  \<^verbatim>\<open>TypeError\<close>. The values 52, 26 and 12 are doubles as they are.
\<close>

fun payments_per_year :: "json \<Rightarrow> exn + pyfloat" where
  "payments_per_year (JStr s) =
     (case map_of NUMBER_OF_PAYMENT_PER_YEAR s of
        None \<Rightarrow> Inl KeyError
      | Some n \<Rightarrow> Inr (Fin (of_int n)))"
| "payments_per_year (JArr xs) = Inl TypeError"
| "payments_per_year (JObj kvs) = Inl TypeError"
| "payments_per_year v = Inl KeyError"

definition minimum_down_payment_calculator :: "pyfloat \<Rightarrow> pyfloat" where
  "minimum_down_payment_calculator asking_price =
     (if fle asking_price (Fin 500000)
      then fmul asking_price MIN_DOWN_PAYMENT_RATIO_FIRST_500K
      else fadd (fmul (Fin 500000) MIN_DOWN_PAYMENT_RATIO_FIRST_500K)
             (fmul (fsub asking_price (Fin 500000)) MIN_DOWN_PAYMENT_RATIO_OVER_500K))"

definition mortgage_insurance_calculator :: "pyfloat \<Rightarrow> pyfloat \<Rightarrow> exn + pyfloat" where
  "mortgage_insurance_calculator down_payment asking_price =
     ebind (fdiv down_payment asking_price) (\<lambda>down_payment_ratio.
       Inr (if fle (rnd (2 / 10)) down_payment_ratio \<or> flt (Fin 1000000) asking_price
            then Fin 0
            else if fle (rnd (15 / 100)) down_payment_ratio
                    \<and> flt down_payment_ratio (rnd (2 / 10))
            then fmul asking_price (rnd (18 / 1000))
            else if fle (rnd (1 / 10)) down_payment_ratio
                    \<and> flt down_payment_ratio (rnd (15 / 100))
            then fmul asking_price (rnd (24 / 1000))
            else fmul asking_price (rnd (315 / 10000))))"

text \<open>
  The expression \<^verbatim>\<open>(i * (1 + i) ** n) / ((1 + i) ** n - 1)\<close> that both calculations
  contain, with \<^verbatim>\<open>i\<close> the rate per payment and \<^verbatim>\<open>n\<close> the number of payments.
\<close>

definition payment_formula :: "pyfloat \<Rightarrow> pyfloat \<Rightarrow> exn + pyfloat" where
  "payment_formula i n =
     ebind (fpow (fadd (Fin 1) i) n) (\<lambda>p1.
     ebind (fpow (fadd (Fin 1) i) n) (\<lambda>p2.
       fdiv (fmul i p1) (fsub p2 (Fin 1))))"

text \<open>
  The text both \<^verbatim>\<open>except KeyError\<close> branches answer with. It ends in a quote
  character, which a string literal cannot hold in its last place.
\<close>

definition schedule_message :: string where
  "schedule_message =
     ''Error: payment schedule should be 'weekly', 'biweekly' or 'monthly'' @ [CHR 0x27]"

text \<open>The body of the \<^verbatim>\<open>try\<close> of \<^verbatim>\<open>payment_amount\<close>, after \<^verbatim>\<open>json.loads\<close>.\<close>

definition payment_amount_try :: "state \<Rightarrow> json \<Rightarrow> exn + json" where
  "payment_amount_try s request_parameter =
     ebind (subscript request_parameter ''asking price'') (\<lambda>v1.
     ebind (py_float v1) (\<lambda>asking_price.
     ebind (subscript request_parameter ''down payment'') (\<lambda>v2.
     ebind (py_float v2) (\<lambda>down_payment.
     ebind (subscript request_parameter ''payment schedule'') (\<lambda>v3.
     ebind (payments_per_year v3) (\<lambda>scheduled_payment_per_year.
     ebind (subscript request_parameter ''amortization period'') (\<lambda>v4.
     ebind (py_float v4) (\<lambda>amortization_period.
       if flt asking_price (Fin 0) \<or> flt down_payment (Fin 0)
          \<or> \<not> (fle (Fin 5) amortization_period \<and> fle amortization_period (Fin 25))
       then Inr (JObj [(''payment amount'', JStr ''Error: given value is not allowed'')])
       else
         let minimum_down_payment = minimum_down_payment_calculator asking_price in
         if flt down_payment minimum_down_payment
         then Inr (JObj [(''payment amount'',
                          JStr ''Error: minimum down payment is not satisfied'')])
         else
           ebind (mortgage_insurance_calculator down_payment asking_price) (\<lambda>mortgage_insurance.
           let scheduled_payment_times = fmul amortization_period scheduled_payment_per_year in
           ebind (fdiv (MORTGAGE_INTEREST_RATE s) scheduled_payment_per_year)
             (\<lambda>scheduled_payment_interest_rate.
           ebind (payment_formula scheduled_payment_interest_rate scheduled_payment_times)
             (\<lambda>factor.
             Inr (JObj [(''payment amount'',
                    JNum (fround2 (fmul (fadd (fsub asking_price down_payment) mortgage_insurance)
                                        factor)))]))))))))))))"

definition payment_amount :: "state \<Rightarrow> json \<Rightarrow> exn + json" where
  "payment_amount s request_parameter =
     (case payment_amount_try s request_parameter of
        Inl ValueError \<Rightarrow>
          Inr (JObj [(''payment amount'', JStr ''Error: non-numerical values are given'')])
      | Inl KeyError \<Rightarrow> Inr (JObj [(''payment amount'', JStr schedule_message)])
      | r \<Rightarrow> r)"

text \<open>The body of the \<^verbatim>\<open>try\<close> of \<^verbatim>\<open>mortgage_amount\<close>, after \<^verbatim>\<open>json.loads\<close>.\<close>

definition mortgage_amount_try :: "state \<Rightarrow> json \<Rightarrow> exn + json" where
  "mortgage_amount_try s request_parameter =
     ebind (subscript request_parameter ''payment amount'') (\<lambda>v1.
     ebind (py_float v1) (\<lambda>payment_amount.
     ebind (if has_key request_parameter ''down payment''
            then subscript request_parameter ''down payment''
            else Inr (JInt 0)) (\<lambda>v2.
     ebind (py_float v2) (\<lambda>down_payment.
     ebind (subscript request_parameter ''payment schedule'') (\<lambda>v3.
     ebind (payments_per_year v3) (\<lambda>scheduled_payment_per_year.
     ebind (subscript request_parameter ''amortization period'') (\<lambda>v4.
     ebind (py_float v4) (\<lambda>amortization_period.
       if flt payment_amount (Fin 0) \<or> flt down_payment (Fin 0)
          \<or> \<not> (fle (Fin 5) amortization_period \<and> fle amortization_period (Fin 25))
       then Inr (JObj [(''mortgage amount'', JStr ''Error: given value is not allowed'')])
       else
         let scheduled_payment_times = fmul amortization_period scheduled_payment_per_year in
         ebind (fdiv (MORTGAGE_INTEREST_RATE s) scheduled_payment_per_year)
           (\<lambda>scheduled_payment_interest_rate.
         ebind (payment_formula scheduled_payment_interest_rate scheduled_payment_times)
           (\<lambda>factor.
         ebind (fdiv payment_amount factor) (\<lambda>mortgage_amount.
           Inr (JObj [(''mortgage amount'',
                  JNum (fround2 (fadd mortgage_amount down_payment)))]))))))))))))"

definition mortgage_amount :: "state \<Rightarrow> json \<Rightarrow> exn + json" where
  "mortgage_amount s request_parameter =
     (case mortgage_amount_try s request_parameter of
        Inl ValueError \<Rightarrow>
          Inr (JObj [(''mortgage amount'', JStr ''Error: non-numerical values are given'')])
      | Inl KeyError \<Rightarrow> Inr (JObj [(''mortgage amount'', JStr schedule_message)])
      | r \<Rightarrow> r)"

text \<open>
  \<^verbatim>\<open>change_interest_rate\<close> catches \<^verbatim>\<open>ValueError\<close> only. It returns its answer and the
  state it leaves; an exception is raised before the assignment, so it leaves the state
  as it was.
\<close>

definition change_interest_rate :: "state \<Rightarrow> json \<Rightarrow> (exn + json) \<times> state" where
  "change_interest_rate s request_parameter =
     (case ebind (subscript request_parameter ''interest rate'') (\<lambda>v.
           ebind (py_float v) (\<lambda>x. fdiv x (Fin 100))) of
        Inl ValueError \<Rightarrow>
          (Inr (JObj [(''mortgage amount'', JStr ''Error: non-numerical values are given'')]), s)
      | Inl e \<Rightarrow> (Inl e, s)
      | Inr new_interest_rate \<Rightarrow>
          if fle new_interest_rate (Fin 0)
          then (Inr (JObj [(''old interest rate'', JNum (MORTGAGE_INTEREST_RATE s)),
                           (''new interest rate'',
                            JStr ''Error: negative interest rate is given'')]), s)
          else (Inr (JObj [(''old interest rate'', JNum (MORTGAGE_INTEREST_RATE s)),
                           (''new interest rate'', JNum new_interest_rate)]),
                s\<lparr>MORTGAGE_INTEREST_RATE := new_interest_rate\<rparr>))"

text \<open>A caller's sequence of requests, each to one of the three entry points.\<close>

datatype request = PaymentAmount json | MortgageAmount json | ChangeInterestRate json

fun serve :: "state \<Rightarrow> request \<Rightarrow> (exn + json) \<times> state" where
  "serve s (PaymentAmount j) = (payment_amount s j, s)"
| "serve s (MortgageAmount j) = (mortgage_amount s j, s)"
| "serve s (ChangeInterestRate j) = change_interest_rate s j"

fun serve_all :: "state \<Rightarrow> request list \<Rightarrow> state" where
  "serve_all s [] = s"
| "serve_all s (r # rs) = serve_all (snd (serve s r)) rs"

section \<open>Requests of the examples\<close>

text \<open>
  The scenario of the specification: price 630000, down payment 300000, monthly, ten
  years.
\<close>

definition scenario_request :: json where
  "scenario_request =
     JObj [(''asking price'', JNum (Fin 630000)), (''down payment'', JNum (Fin 300000)),
           (''payment schedule'', JStr ''monthly''), (''amortization period'', JNum (Fin 10))]"

text \<open>The scenario's answer, 3110.91, sent back with the same down payment.\<close>

definition round_trip_request :: json where
  "round_trip_request =
     JObj [(''payment amount'', JNum (rnd (311091 / 100))), (''down payment'', JNum (Fin 300000)),
           (''payment schedule'', JStr ''monthly''), (''amortization period'', JNum (Fin 10))]"

text \<open>The specification's mortgage scenario: payment 3010, monthly, ten years.\<close>

definition mortgage_scenario_request :: json where
  "mortgage_scenario_request =
     JObj [(''payment amount'', JNum (Fin 3010)), (''payment schedule'', JStr ''monthly''),
           (''amortization period'', JNum (Fin 10))]"

text \<open>A price of 0 with a down payment of 0.\<close>

definition free_request :: json where
  "free_request =
     JObj [(''asking price'', JNum (Fin 0)), (''down payment'', JNum (Fin 0)),
           (''payment schedule'', JStr ''monthly''), (''amortization period'', JNum (Fin 10))]"

text \<open>A price over 1000000 with a down payment of 0.\<close>

definition no_down_payment_request :: json where
  "no_down_payment_request =
     JObj [(''asking price'', JNum (Fin 2000000)), (''down payment'', JNum (Fin 0)),
           (''payment schedule'', JStr ''monthly''), (''amortization period'', JNum (Fin 10))]"

text \<open>An unknown schedule together with a period that is no number, or out of range.\<close>

definition unparsed_period_request :: json where
  "unparsed_period_request =
     JObj [(''asking price'', JNum (Fin 100000)), (''down payment'', JNum (Fin 20000)),
           (''payment schedule'', JStr ''daily''), (''amortization period'', JStr ''abc'')]"

definition long_period_request :: json where
  "long_period_request =
     JObj [(''asking price'', JNum (Fin 100000)), (''down payment'', JNum (Fin 20000)),
           (''payment schedule'', JStr ''daily''), (''amortization period'', JNum (Fin 30))]"

text \<open>No amortization period, and an asking price that is no number.\<close>

definition no_period_request :: json where
  "no_period_request =
     JObj [(''asking price'', JStr ''abc''), (''down payment'', JNum (Fin 20000)),
           (''payment schedule'', JStr ''monthly'')]"

section \<open>Rounding\<close>

lemma floor_log2_eq:
  fixes a :: real
  assumes "2 powi e \<le> a" and "a < 2 powi (e + 1)"
  shows "\<lfloor>log 2 a\<rfloor> = e"
proof -
  have "(0::real) < 2 powi e"
    by simp
  then have a: "0 < a"
    using assms(1) by linarith
  have "of_int e \<le> log 2 a"
    using assms(1) a by (simp add: le_log_iff powr_real_of_int')
  moreover have "log 2 a < of_int (e + 1)"
  proof -
    have "(2::real) powr (of_int (e + 1)) = 2 powi (e + 1)"
      by (rule powr_real_of_int') simp_all
    then have "a < 2 powr (of_int (e + 1))"
      using assms(2) by simp
    then show ?thesis
      using a by (subst log_less_iff) simp_all
  qed
  ultimately show ?thesis
    by linarith
qed

lemma round_half_even_close: "\<bar>of_int (round_half_even t) - t\<bar> \<le> 1 / 2"
  unfolding round_half_even_def Let_def by (auto simp: abs_le_iff)

lemma round_half_even_int: "round_half_even (of_int m) = m"
  by (simp add: round_half_even_def)

lemma round_half_even_nonneg: "0 \<le> t \<Longrightarrow> 0 \<le> round_half_even t"
  unfolding round_half_even_def Let_def by auto

lemma rnd_error:
  assumes "rnd x = Fin y"
  shows "\<bar>y - x\<bar> \<le> \<bar>x\<bar> / 2 ^ 53 + 1 / 2 ^ 1075"
proof (cases "x = 0")
  case True
  then show ?thesis
    using assms by (simp add: rnd_def)
next
  case False
  define e where "e = max \<lfloor>log 2 \<bar>x\<bar>\<rfloor> (- 1022)"
  define q :: real where "q = 2 powi (e - 52)"
  have q: "0 < q"
    by (simp add: q_def)
  have y: "y = of_int (round_half_even (x / q)) * q"
    using assms False by (simp add: rnd_def Let_def e_def q_def split: if_splits)
  have "\<bar>of_int (round_half_even (x / q)) - x / q\<bar> \<le> 1 / 2"
    by (rule round_half_even_close)
  then have "\<bar>of_int (round_half_even (x / q)) - x / q\<bar> * q \<le> 1 / 2 * q"
    using q by (intro mult_right_mono) simp_all
  moreover have "\<bar>of_int (round_half_even (x / q)) - x / q\<bar> * q = \<bar>y - x\<bar>"
  proof -
    have "(of_int (round_half_even (x / q)) - x / q) * q = y - x"
      using q by (simp add: y algebra_simps)
    then show ?thesis
      using q by (metis abs_mult abs_of_pos)
  qed
  ultimately have h: "\<bar>y - x\<bar> \<le> q / 2"
    by simp
  show ?thesis
  proof (cases "- 1022 \<le> \<lfloor>log 2 \<bar>x\<bar>\<rfloor>")
    case True
    then have e: "e = \<lfloor>log 2 \<bar>x\<bar>\<rfloor>"
      by (simp add: e_def)
    have "of_int e \<le> log 2 \<bar>x\<bar>"
      unfolding e by linarith
    then have "2 powr (of_int e) \<le> \<bar>x\<bar>"
      using False by (simp add: le_log_iff)
    then have "2 powi e \<le> \<bar>x\<bar>"
      by (simp add: powr_real_of_int')
    moreover have "q = 2 powi e / 2 ^ 52"
      by (simp add: q_def power_int_diff)
    ultimately have "q / 2 \<le> \<bar>x\<bar> / 2 ^ 53"
      by simp
    moreover have "(0::real) \<le> 1 / 2 ^ 1075"
      by simp
    ultimately show ?thesis
      using h by linarith
  next
    case False
    then have e: "e = - 1022"
      by (simp add: e_def)
    have "q = 1 / 2 ^ 1074"
      by (simp add: q_def e power_int_minus divide_simps)
    then have "q / 2 = 1 / 2 ^ 1075"
      by simp
    moreover have "0 \<le> \<bar>x\<bar> / 2 ^ 53"
      by simp
    ultimately show ?thesis
      using h by linarith
  qed
qed


lemma round_half_even_bound:
  assumes "\<bar>t\<bar> \<le> of_int n"
  shows "\<bar>round_half_even t\<bar> \<le> n"
  using assms unfolding round_half_even_def Let_def
  by (auto simp: abs_le_iff) linarith+

lemma rnd_eval:
  assumes "2 powi e \<le> \<bar>x\<bar>" and "\<bar>x\<bar> < 2 powi (e + 1)"
    and "- 1022 \<le> e" and "e \<le> 1022"
    and "round_half_even (x / 2 powi (e - 52)) = m"
  shows "rnd x = Fin (of_int m * 2 powi (e - 52))"
proof -
  have "(0::real) < 2 powi e"
    by simp
  then have "0 < \<bar>x\<bar>"
    using assms(1) by linarith
  then have x: "x \<noteq> 0"
    by simp
  have e: "max \<lfloor>log 2 \<bar>x\<bar>\<rfloor> (- 1022) = e"
    using floor_log2_eq [OF assms(1,2)] assms(3) by simp
  define q :: real where "q = 2 powi (e - 52)"
  have q: "0 < q"
    by (simp add: q_def)
  have "2 powi (e + 1) = q * 2 ^ 53"
    by (simp add: q_def power_int_diff power_int_add)
  then have "\<bar>x / q\<bar> \<le> of_int (2 ^ 53)"
    using assms(2) q by (simp add: field_simps)
  then have "\<bar>m\<bar> \<le> 2 ^ 53"
    unfolding assms(5) [symmetric] q_def by (rule round_half_even_bound)
  then have "\<bar>real_of_int m\<bar> \<le> 2 ^ 53"
    by (metis of_int_abs of_int_le_iff of_int_numeral of_int_power)
  then have "\<bar>of_int m * q\<bar> \<le> 2 ^ 53 * q"
    using q by (simp add: abs_mult)
  also have "2 ^ 53 * q = 2 powi (e + 1)"
    by (simp add: q_def power_int_diff power_int_add)
  also have "\<dots> \<le> 2 powi 1023"
    using assms(4) by (intro power_int_increasing) simp_all
  also have "\<dots> < (2::real) ^ 1024"
    by simp
  finally have "\<not> 2 ^ 1024 \<le> \<bar>of_int m * q\<bar>"
    by simp
  then show ?thesis
    using x e assms(5) by (simp add: rnd_def Let_def q_def)
qed

section \<open>Evaluation lemmas\<close>

lemma rnd_0: "rnd 0 = Fin 0"
  by (simp add: rnd_def)

lemma rnd_1_20: "rnd (1 / 20) = Fin (3602879701896397 / 72057594037927936)"
proof -
  have "rnd (1 / 20) = Fin (of_int 7205759403792794 * 2 powi (- 5 - 52))"
    by (rule rnd_eval) (simp_all add: round_half_even_def power_int_minus power_divide)
  then show ?thesis
    by (simp add: power_int_minus)
qed

lemma rnd_1_10: "rnd (1 / 10) = Fin (3602879701896397 / 36028797018963968)"
proof -
  have "rnd (1 / 10) = Fin (of_int 7205759403792794 * 2 powi (- 4 - 52))"
    by (rule rnd_eval) (simp_all add: round_half_even_def power_int_minus power_divide)
  then show ?thesis
    by (simp add: power_int_minus)
qed

lemma rnd_1_40: "rnd (1 / 40) = Fin (3602879701896397 / 144115188075855872)"
proof -
  have "rnd (1 / 40) = Fin (of_int 7205759403792794 * 2 powi (- 6 - 52))"
    by (rule rnd_eval) (simp_all add: round_half_even_def power_int_minus power_divide)
  then show ?thesis
    by (simp add: power_int_minus)
qed

lemma rnd_1_5: "rnd (1 / 5) = Fin (3602879701896397 / 18014398509481984)"
proof -
  have "rnd (1 / 5) = Fin (of_int 7205759403792794 * 2 powi (- 3 - 52))"
    by (rule rnd_eval) (simp_all add: round_half_even_def power_int_minus power_divide)
  then show ?thesis
    by (simp add: power_int_minus)
qed

lemma rnd_3_20: "rnd (3 / 20) = Fin (5404319552844595 / 36028797018963968)"
proof -
  have "rnd (3 / 20) = Fin (of_int 5404319552844595 * 2 powi (- 3 - 52))"
    by (rule rnd_eval) (simp_all add: round_half_even_def power_int_minus power_divide)
  then show ?thesis
    by (simp add: power_int_minus)
qed

lemma rnd_9_500: "rnd (9 / 500) = Fin (5188146770730811 / 288230376151711744)"
proof -
  have "rnd (9 / 500) = Fin (of_int 5188146770730811 * 2 powi (- 6 - 52))"
    by (rule rnd_eval) (simp_all add: round_half_even_def power_int_minus power_divide)
  then show ?thesis
    by (simp add: power_int_minus)
qed

lemma rnd_3_125: "rnd (3 / 125) = Fin (3458764513820541 / 144115188075855872)"
proof -
  have "rnd (3 / 125) = Fin (of_int 6917529027641082 * 2 powi (- 6 - 52))"
    by (rule rnd_eval) (simp_all add: round_half_even_def power_int_minus power_divide)
  then show ?thesis
    by (simp add: power_int_minus)
qed

lemma rnd_63_2000: "rnd (63 / 2000) = Fin (1134907106097365 / 36028797018963968)"
proof -
  have "rnd (63 / 2000) = Fin (of_int 4539628424389460 * 2 powi (- 5 - 52))"
    by (rule rnd_eval) (simp_all add: round_half_even_def power_int_minus power_divide)
  then show ?thesis
    by (simp add: power_int_minus)
qed

lemmas rnd_consts = rnd_1_20 rnd_1_10 rnd_1_40 rnd_1_5 rnd_3_20 rnd_9_500 rnd_3_125 rnd_63_2000

lemma rnd_checked_0: "rnd_checked 0 = Inr (Fin 0)"
  by (simp add: rnd_checked_def rnd_def)

lemmas float_parser_defs =
  float_of_string_def parse_decimal_def parse_exponent_def split_sign_def strip_def
  is_space_def is_digit_def digit_val_def digits_val_def lower_def

lemmas module_defs =
  ebind_def payment_amount_def payment_amount_try_def mortgage_amount_def
  mortgage_amount_try_def change_interest_rate_def payment_formula_def fpow_def fsub_def
  minimum_down_payment_calculator_def mortgage_insurance_calculator_def
  MIN_DOWN_PAYMENT_RATIO_FIRST_500K_def MIN_DOWN_PAYMENT_RATIO_OVER_500K_def
  NUMBER_OF_PAYMENT_PER_YEAR_def initial_state_def rnd_consts rnd_0 rnd_checked_0

lemma float_of_string_nan: "float_of_string ''nan'' = Some NaN"
  by (simp add: float_parser_defs)

lemma float_of_string_abc: "float_of_string ''abc'' = None"
  by (simp add: float_parser_defs)

lemma ebind_Inl: "ebind (Inl e) f = Inl e"
  by (simp add: ebind_def)

lemma ebind_Inr: "ebind (Inr x) f = f x"
  by (simp add: ebind_def)

lemma per_year_positive:
  "map_of NUMBER_OF_PAYMENT_PER_YEAR sch = Some ppy \<Longrightarrow> 0 < ppy"
  by (auto simp: NUMBER_OF_PAYMENT_PER_YEAR_def split: if_splits)

text \<open>
  A rate that is not above 0 is refused and the state stays; so no request sequence stores
  a rate that compares as at most 0.
\<close>

lemma change_interest_rate_rejects:
  assumes "subscript request_parameter ''interest rate'' = Inr v" and "py_float v = Inr x"
    and "fdiv x (Fin 100) = Inr y" and "fle y (Fin 0)"
  shows "change_interest_rate s request_parameter =
           (Inr (JObj [(''old interest rate'', JNum (MORTGAGE_INTEREST_RATE s)),
                       (''new interest rate'', JStr ''Error: negative interest rate is given'')]), s)"
  using assms by (simp add: change_interest_rate_def ebind_Inr del: fdiv.simps)

lemma change_interest_rate_not_nonpositive:
  assumes "\<not> fle (MORTGAGE_INTEREST_RATE s) (Fin 0)"
  shows "\<not> fle (MORTGAGE_INTEREST_RATE (snd (change_interest_rate s j))) (Fin 0)"
  using assms by (simp add: change_interest_rate_def split: sum.splits exn.splits)

lemma serve_all_not_nonpositive:
  assumes "\<not> fle (MORTGAGE_INTEREST_RATE s) (Fin 0)"
  shows "\<not> fle (MORTGAGE_INTEREST_RATE (serve_all s rs)) (Fin 0)"
  using assms
proof (induction rs arbitrary: s)
  case Nil
  then show ?case by simp
next
  case (Cons r rs)
  have "\<not> fle (MORTGAGE_INTEREST_RATE (snd (serve s r))) (Fin 0)"
    using Cons.prems by (cases r) (simp_all add: change_interest_rate_not_nonpositive)
  then show ?case
    using Cons.IH by simp
qed

section \<open>Bounds on rounding\<close>

lemma round_half_even_unique:
  assumes "\<bar>t - of_int m\<bar> < 1 / 2"
  shows "round_half_even t = m"
proof -
  have "real_of_int m - 1 \<le> t" and "t < real_of_int m + 1"
    using assms by linarith+
  then have "of_int (m - 1) \<le> t" and "t < of_int (m + 1)"
    by simp_all
  then have "m - 1 \<le> \<lfloor>t\<rfloor>" and "\<lfloor>t\<rfloor> < m + 1"
    by (simp_all only: le_floor_iff floor_less_iff)
  then have "\<lfloor>t\<rfloor> = m \<or> \<lfloor>t\<rfloor> = m - 1"
    by linarith
  then show ?thesis
    using assms unfolding round_half_even_def Let_def
    by (auto simp: abs_less_iff)
qed


lemma rnd_nonneg:
  assumes "0 \<le> x" and "rnd x = Fin y"
  shows "0 \<le> y"
proof (cases "x = 0")
  case True
  then show ?thesis
    using assms by (simp add: rnd_def)
next
  case False
  define q :: real where "q = 2 powi (max \<lfloor>log 2 \<bar>x\<bar>\<rfloor> (- 1022) - 52)"
  have q: "0 < q"
    by (simp add: q_def)
  have "y = of_int (round_half_even (x / q)) * q"
    using assms False by (simp add: rnd_def Let_def q_def split: if_splits)
  moreover have "0 \<le> round_half_even (x / q)"
    using assms(1) q by (intro round_half_even_nonneg) simp
  ultimately show ?thesis
    using q by simp
qed

lemma rnd_finite:
  assumes "\<bar>x\<bar> \<le> 2 ^ 1023"
  shows "\<exists>y. rnd x = Fin y"
proof (cases "x = 0")
  case True
  then show ?thesis
    by (simp add: rnd_def)
next
  case False
  define e where "e = max \<lfloor>log 2 \<bar>x\<bar>\<rfloor> (- 1022)"
  define q :: real where "q = 2 powi (e - 52)"
  have q: "0 < q"
    by (simp add: q_def)
  have "log 2 \<bar>x\<bar> < 1024"
    using assms False by (subst log_less_iff) simp_all
  then have "\<lfloor>log 2 \<bar>x\<bar>\<rfloor> \<le> 1023"
    by (simp add: floor_le_iff)
  then have e: "e \<le> 1023"
    by (simp add: e_def)
  define k where "k = nat (1075 - e)"
  have k: "(2::real) ^ 1023 = 2 ^ k * q"
  proof -
    have "(2::real) ^ k = 2 powi (1075 - e)"
      using e by (simp add: k_def power_int_def)
    then have "(2::real) ^ k * q = 2 powi (1075 - e) * 2 powi (e - 52)"
      by (simp only: q_def)
    also have "\<dots> = 2 powi ((1075 - e) + (e - 52))"
      by (rule power_int_add [symmetric]) simp
    also have "\<dots> = 2 powi 1023"
      by simp
    also have "\<dots> = 2 ^ 1023"
      by simp
    finally show ?thesis
      by simp
  qed
  have "\<bar>x / q\<bar> \<le> of_int (2 ^ k)"
    using assms q k by (simp add: field_simps)
  then have "\<bar>round_half_even (x / q)\<bar> \<le> 2 ^ k"
    by (rule round_half_even_bound)
  then have "\<bar>real_of_int (round_half_even (x / q))\<bar> \<le> 2 ^ k"
    by (metis of_int_abs of_int_le_iff of_int_numeral of_int_power)
  then have "\<bar>of_int (round_half_even (x / q)) * q\<bar> \<le> 2 ^ k * q"
    using q by (simp add: abs_mult)
  also have "\<dots> < 2 ^ 1024"
    unfolding k [symmetric] by simp
  finally show ?thesis
    using False by (simp add: rnd_def Let_def e_def [symmetric] q_def [symmetric])
qed

lemma rnd_overflow:
  assumes "2 ^ 1024 \<le> x"
  shows "rnd x = PInf"
proof -
  have x: "0 < x"
    using assms by (rule less_le_trans [rotated]) simp
  define e where "e = \<lfloor>log 2 x\<rfloor>"
  define q :: real where "q = 2 powi (e - 52)"
  have q: "0 < q"
    by (simp add: q_def)
  have "1024 \<le> log 2 x"
    using assms x by (subst le_log_iff) simp_all
  then have e: "1024 \<le> e"
    by (simp add: e_def le_floor_iff)
  have "of_int e \<le> log 2 x"
    unfolding e_def by linarith
  then have "2 powr (of_int e) \<le> x"
    using x by (simp add: le_log_iff)
  then have "2 powi e \<le> x"
    using x by (simp add: powr_real_of_int')
  moreover have "2 powi e = 2 ^ 52 * q"
    by (simp add: q_def power_int_diff)
  ultimately have "of_int (2 ^ 52) \<le> x / q"
    using q by (simp add: field_simps)
  then have "2 ^ 52 \<le> \<lfloor>x / q\<rfloor>"
    by (simp add: le_floor_iff)
  then have "2 ^ 52 \<le> round_half_even (x / q)"
    unfolding round_half_even_def Let_def by auto
  then have "(2::real) ^ 52 \<le> of_int (round_half_even (x / q))"
    by (metis of_int_le_iff of_int_numeral of_int_power)
  then have "2 ^ 52 * q \<le> of_int (round_half_even (x / q)) * q"
    using q by simp
  moreover have "(2::real) ^ 1024 \<le> 2 ^ 52 * q"
  proof -
    have "(2::real) powi 1024 \<le> 2 powi e"
      using e by (intro power_int_increasing) simp_all
    then show ?thesis
      by (simp add: q_def power_int_diff)
  qed
  ultimately have "2 ^ 1024 \<le> \<bar>of_int (round_half_even (x / q)) * q\<bar>"
    by linarith
  moreover have "max e (- 1022) = e"
    using e by simp
  ultimately show ?thesis
    using x by (simp add: rnd_def Let_def e_def [symmetric] q_def [symmetric])
qed

text \<open>The same facts with the two extreme constants named, for linear arithmetic.\<close>

lemma rnd_error_named:
  assumes "rnd x = Fin y" and "\<eta> = 1 / 2 ^ 1075"
  shows "\<bar>y - x\<bar> \<le> \<bar>x\<bar> / 9007199254740992 + \<eta>"
  unfolding assms(2) using rnd_error [OF assms(1)] by simp

lemma rnd_finite_named:
  assumes "\<bar>x\<bar> \<le> B" and "B = 2 ^ 1023"
  shows "\<exists>y. rnd x = Fin y"
  using assms(1) unfolding assms(2) by (rule rnd_finite)






section \<open>The minimum down payment\<close>

lemma MIN_FIRST_value:
  "MIN_DOWN_PAYMENT_RATIO_FIRST_500K = Fin (3602879701896397 / 72057594037927936)"
  by (simp add: MIN_DOWN_PAYMENT_RATIO_FIRST_500K_def rnd_consts)

lemma MIN_OVER_value:
  "MIN_DOWN_PAYMENT_RATIO_OVER_500K = Fin (3602879701896397 / 36028797018963968)"
  by (simp add: MIN_DOWN_PAYMENT_RATIO_OVER_500K_def rnd_consts)

lemma rnd_25000: "rnd (25000) = Fin (25000)"
proof -
  have "rnd (25000) = Fin (of_int 6871947673600000 * 2 powi (14 - 52))"
    by (rule rnd_eval) (simp_all add: round_half_even_def power_int_minus power_divide)
  then show ?thesis
    by (simp add: power_int_minus)
qed

lemma first_tier_at_boundary:
  "fmul (Fin 500000) MIN_DOWN_PAYMENT_RATIO_FIRST_500K = Fin 25000"
proof -
  have "rnd (500000 * (3602879701896397 / 72057594037927936)) =
      Fin (of_int 6871947673600000 * 2 powi (14 - 52))"
    by (rule rnd_eval) (simp_all add: round_half_even_def power_int_minus)
  then show ?thesis
    by (simp add: MIN_FIRST_value power_int_minus)
qed

lemma first_tier_value:
  assumes "\<bar>p\<bar> \<le> 2 ^ 1023"
  shows "\<exists>v. fmul (Fin p) MIN_DOWN_PAYMENT_RATIO_FIRST_500K = Fin v
           \<and> \<bar>v - p * (5 / 100)\<bar> \<le> \<bar>p\<bar> / 2 ^ 50 + 1 / 2 ^ 1074"
proof -
  define B :: real where "B = 2 ^ 1023"
  define \<eta> :: real where "\<eta> = 1 / 2 ^ 1075"
  define \<eta>' :: real where "\<eta>' = 1 / 2 ^ 1074"
  have B: "\<bar>p\<bar> \<le> B"
    using assms by (simp add: B_def)
  have \<eta>: "0 \<le> \<eta>" "\<eta> \<le> \<eta>'"
    by (simp_all add: \<eta>_def \<eta>'_def)
  have "\<bar>p * (3602879701896397 / 72057594037927936)\<bar> \<le> B"
    using B by (simp add: abs_mult)
  then obtain v where v: "rnd (p * (3602879701896397 / 72057594037927936)) = Fin v"
    using rnd_finite_named [OF _ B_def] by blast
  have "\<bar>v - p * (3602879701896397 / 72057594037927936)\<bar>
      \<le> \<bar>p * (3602879701896397 / 72057594037927936)\<bar> / 9007199254740992 + \<eta>"
    using v \<eta>_def by (rule rnd_error_named)
  moreover have "\<bar>p * (3602879701896397 / 72057594037927936)\<bar>
      = \<bar>p\<bar> * (3602879701896397 / 72057594037927936)"
    by (simp add: abs_mult)
  ultimately have "\<bar>v - p * (5 / 100)\<bar> \<le> \<bar>p\<bar> / 1125899906842624 + \<eta>'"
    using \<eta> by linarith
  then have "\<bar>v - p * (5 / 100)\<bar> \<le> \<bar>p\<bar> / 2 ^ 50 + \<eta>'"
    by simp
  moreover have "fmul (Fin p) MIN_DOWN_PAYMENT_RATIO_FIRST_500K = Fin v"
    using v by (simp add: MIN_FIRST_value)
  ultimately show ?thesis
    unfolding \<eta>'_def by blast
qed

lemma second_tier_value:
  assumes "500000 < p" and "p \<le> 2 ^ 1023"
  shows "\<exists>v. fadd (fmul (Fin 500000) MIN_DOWN_PAYMENT_RATIO_FIRST_500K)
                (fmul (fsub (Fin p) (Fin 500000)) MIN_DOWN_PAYMENT_RATIO_OVER_500K) = Fin v
           \<and> \<bar>v - (25000 + (p - 500000) * (10 / 100))\<bar> \<le> p / 2 ^ 50"
proof -
  define B :: real where "B = 2 ^ 1023"
  define \<eta> :: real where "\<eta> = 1 / 2 ^ 1075"
  have B: "p \<le> B"
    using assms by (simp add: B_def)
  have \<eta>: "0 \<le> \<eta>" "\<eta> \<le> 1 / 1152921504606846976"
    by (simp_all add: \<eta>_def)
  have "\<bar>p + - 500000\<bar> \<le> B"
    using B assms(1) by argo
  then obtain x1 where x1: "rnd (p + - 500000) = Fin x1"
    using rnd_finite_named [OF _ B_def] by blast
  have e1: "\<bar>x1 - (p + - 500000)\<bar> \<le> \<bar>p + - 500000\<bar> / 9007199254740992 + \<eta>"
    using x1 \<eta>_def by (rule rnd_error_named)
  have x1p: "0 \<le> x1"
    using x1 by (rule rnd_nonneg [rotated]) (use assms(1) in simp)
  have b1: "x1 \<le> 2 * p"
    using e1 assms(1) \<eta> by argo
  have a2: "\<bar>x1 * (3602879701896397 / 36028797018963968)\<bar>
      = x1 * (3602879701896397 / 36028797018963968)"
    using x1p by (simp add: abs_mult)
  have "\<bar>x1 * (3602879701896397 / 36028797018963968)\<bar> \<le> B"
    unfolding a2 using x1p b1 B by argo
  then obtain x2 where x2: "rnd (x1 * (3602879701896397 / 36028797018963968)) = Fin x2"
    using rnd_finite_named [OF _ B_def] by blast
  have e2: "\<bar>x2 - x1 * (3602879701896397 / 36028797018963968)\<bar>
      \<le> x1 * (3602879701896397 / 36028797018963968) / 9007199254740992 + \<eta>"
    using rnd_error_named [OF x2 \<eta>_def] unfolding a2 .
  have x2p: "0 \<le> x2"
    using x2 by (rule rnd_nonneg [rotated]) (use x1p in simp)
  have b2: "x2 \<le> p / 2"
    using e2 x1p b1 assms(1) \<eta> by argo
  have "\<bar>25000 + x2\<bar> \<le> B"
    using x2p b2 B assms(1) by argo
  then obtain v where v: "rnd (25000 + x2) = Fin v"
    using rnd_finite_named [OF _ B_def] by blast
  have e3: "\<bar>v - (25000 + x2)\<bar> \<le> \<bar>25000 + x2\<bar> / 9007199254740992 + \<eta>"
    using v \<eta>_def by (rule rnd_error_named)
  have "\<bar>v - (25000 + (p - 500000) * (10 / 100))\<bar> \<le> p / 1125899906842624"
    using e1 e2 e3 x1p x2p b1 b2 assms(1) \<eta> by argo
  then have "\<bar>v - (25000 + (p - 500000) * (10 / 100))\<bar> \<le> p / 2 ^ 50"
    by simp
  moreover have "fadd (fmul (Fin 500000) MIN_DOWN_PAYMENT_RATIO_FIRST_500K)
      (fmul (fsub (Fin p) (Fin 500000)) MIN_DOWN_PAYMENT_RATIO_OVER_500K) = Fin v"
    using x1 x2 v by (simp add: first_tier_at_boundary MIN_OVER_value fsub_def)
  ultimately show ?thesis
    by blast
qed

lemma rnd_price_100003: "rnd (360298778828745389191 / 72057594037927936) = Fin (5497723065624167 / 1099511627776)"
proof -
  have "rnd (360298778828745389191 / 72057594037927936) = Fin (of_int 5497723065624167 * 2 powi (12 - 52))"
    by (rule rnd_eval) (simp_all add: round_half_even_def power_int_minus power_divide)
  then show ?thesis
    by (simp add: power_int_minus)
qed

text \<open>
  Claim C2, as amended. \<^verbatim>\<open>minimum_down_payment_calculator\<close> works on doubles: \<^verbatim>\<open>0.05\<close>
  and \<^verbatim>\<open>0.1\<close> are the doubles nearest to 5% and 10%, and every product and sum is
  rounded. For every asking price that is a finite double of magnitude at most
  \<open>2 ^ 1023\<close> the function returns a finite double; for a price of at most 500000 it is
  within \<open>\<bar>p\<bar> / 2 ^ 50 + 1 / 2 ^ 1074\<close> of 5% of the price, and for a price above 500000
  it is within \<open>p / 2 ^ 50\<close> of 25000 plus 10% of the part above 500000. At the price
  500000 the first branch returns 25000 exactly, and so does the expression of the second
  branch.
\<close>

theorem minimum_down_payment_tiers:
  assumes "\<bar>p\<bar> \<le> 2 ^ 1023"
  shows "(\<exists>v. minimum_down_payment_calculator (Fin p) = Fin v
            \<and> (p \<le> 500000 \<longrightarrow> \<bar>v - p * (5 / 100)\<bar> \<le> \<bar>p\<bar> / 2 ^ 50 + 1 / 2 ^ 1074)
            \<and> (500000 < p \<longrightarrow>
                  \<bar>v - (25000 + (p - 500000) * (10 / 100))\<bar> \<le> p / 2 ^ 50))
         \<and> fmul (Fin 500000) MIN_DOWN_PAYMENT_RATIO_FIRST_500K = Fin 25000
         \<and> fadd (fmul (Fin 500000) MIN_DOWN_PAYMENT_RATIO_FIRST_500K)
              (fmul (fsub (Fin 500000) (Fin 500000)) MIN_DOWN_PAYMENT_RATIO_OVER_500K)
            = Fin 25000"
proof (intro conjI)
  show "fmul (Fin 500000) MIN_DOWN_PAYMENT_RATIO_FIRST_500K = Fin 25000"
    by (rule first_tier_at_boundary)
  show "fadd (fmul (Fin 500000) MIN_DOWN_PAYMENT_RATIO_FIRST_500K)
      (fmul (fsub (Fin 500000) (Fin 500000)) MIN_DOWN_PAYMENT_RATIO_OVER_500K) = Fin 25000"
    by (simp add: first_tier_at_boundary MIN_OVER_value fsub_def rnd_0 rnd_25000)
  show "\<exists>v. minimum_down_payment_calculator (Fin p) = Fin v
      \<and> (p \<le> 500000 \<longrightarrow> \<bar>v - p * (5 / 100)\<bar> \<le> \<bar>p\<bar> / 2 ^ 50 + 1 / 2 ^ 1074)
      \<and> (500000 < p \<longrightarrow> \<bar>v - (25000 + (p - 500000) * (10 / 100))\<bar> \<le> p / 2 ^ 50)"
  proof (cases "p \<le> 500000")
    case True
    obtain v where "fmul (Fin p) MIN_DOWN_PAYMENT_RATIO_FIRST_500K = Fin v"
      and "\<bar>v - p * (5 / 100)\<bar> \<le> \<bar>p\<bar> / 2 ^ 50 + 1 / 2 ^ 1074"
      using first_tier_value [OF assms] by blast
    then show ?thesis
      using True by (auto simp: minimum_down_payment_calculator_def)
  next
    case False
    then have "500000 < p" and "p \<le> 2 ^ 1023"
      using assms by linarith+
    then obtain v where "fadd (fmul (Fin 500000) MIN_DOWN_PAYMENT_RATIO_FIRST_500K)
          (fmul (fsub (Fin p) (Fin 500000)) MIN_DOWN_PAYMENT_RATIO_OVER_500K) = Fin v"
      and "\<bar>v - (25000 + (p - 500000) * (10 / 100))\<bar> \<le> p / 2 ^ 50"
      using second_tier_value by blast
    then show ?thesis
      using False by (auto simp: minimum_down_payment_calculator_def)
  qed
qed

text \<open>
  At the prices 100003 and 630000 the theorem gives a value within the bound of 5000.15
  and of 38000.
\<close>

theorem minimum_down_payment_tiers_witness:
  "(\<exists>v. minimum_down_payment_calculator (Fin 100003) = Fin v
        \<and> \<bar>v - 100003 * (5 / 100)\<bar> \<le> 100003 / 2 ^ 50 + 1 / 2 ^ 1074)
   \<and> (\<exists>v. minimum_down_payment_calculator (Fin 630000) = Fin v
        \<and> \<bar>v - (25000 + (630000 - 500000) * (10 / 100))\<bar> \<le> 630000 / 2 ^ 50)"
proof -
  have a: "\<bar>100003 :: real\<bar> \<le> 2 ^ 1023" and b: "\<bar>630000 :: real\<bar> \<le> 2 ^ 1023"
    by simp_all
  have c: "(100003 :: real) \<le> 500000" and d: "(500000 :: real) < 630000"
    by simp_all
  have e: "\<bar>100003 :: real\<bar> = 100003"
    by simp
  show ?thesis
    using minimum_down_payment_tiers [OF a] minimum_down_payment_tiers [OF b] c d
    unfolding e by blast
qed

text \<open>
  The value is not 5% of the price in general: at the asking price 100003 the function
  returns the double 5000.150000000001, which is not 5000.15.
\<close>

theorem minimum_down_payment_tiers_counterexample:
  "minimum_down_payment_calculator (Fin 100003) = Fin (5497723065624167 / 1099511627776)
   \<and> (5497723065624167 / 1099511627776 :: real) \<noteq> 100003 * (5 / 100)"
  by (simp add: minimum_down_payment_calculator_def MIN_FIRST_value rnd_price_100003)

section \<open>The mortgage insurance\<close>









section \<open>The interest rate\<close>

text \<open>
  Claim C5. A rate that is at most 0 after the division by 100 is refused, as
  \<open>change_interest_rate_rejects\<close> shows. But the guard is the comparison
  \<^verbatim>\<open>new_interest_rate <= 0\<close>, which is false for a NaN: the request
  \<^verbatim>\<open>{"interest rate": "nan"}\<close> is answered with a new rate and leaves NaN stored, and
  NaN is not above 0.
\<close>

theorem interest_rate_nan:
  "change_interest_rate initial_state (JObj [(''interest rate'', JStr ''nan'')]) =
     (Inr (JObj [(''old interest rate'', JNum (rnd (25 / 1000))),
                 (''new interest rate'', JNum NaN)]),
      \<lparr>MORTGAGE_INTEREST_RATE = NaN\<rparr>)
   \<and> flt (Fin 0) (MORTGAGE_INTEREST_RATE (serve_all initial_state
         [ChangeInterestRate (JObj [(''interest rate'', JStr ''nan'')])])) = False"
  by (simp add: change_interest_rate_def initial_state_def ebind_Inr float_of_string_nan)

section \<open>Exceptions that leave the module\<close>

text \<open>
  Claim C6. \<^verbatim>\<open>payment_amount\<close> and \<^verbatim>\<open>mortgage_amount\<close> catch \<^verbatim>\<open>ValueError\<close> and
  \<^verbatim>\<open>KeyError\<close>, \<^verbatim>\<open>change_interest_rate\<close> catches \<^verbatim>\<open>ValueError\<close> only. A price of 0
  with a down payment of 0 divides by zero in the insurance rule; a rate request without
  the key \<^verbatim>\<open>interest rate\<close> raises \<^verbatim>\<open>KeyError\<close>, one whose rate is \<^verbatim>\<open>null\<close> raises
  \<^verbatim>\<open>TypeError\<close>; a request that is a JSON list raises \<^verbatim>\<open>TypeError\<close>. Each of these
  reaches the caller.
\<close>

theorem uncaught_exceptions:
  "payment_amount initial_state free_request = Inl ZeroDivisionError
   \<and> fst (change_interest_rate initial_state (JObj [])) = Inl KeyError
   \<and> fst (change_interest_rate initial_state (JObj [(''interest rate'', JNull)]))
       = Inl TypeError
   \<and> mortgage_amount initial_state (JArr []) = Inl TypeError"
  by (simp add: free_request_def module_defs)

section \<open>The order of the checks\<close>

text \<open>
  Claim C7, as amended. \<^verbatim>\<open>payment_amount\<close> converts the asking price, then the down
  payment, then looks the schedule up, and only then converts the amortization period.
  So a request whose asking price or down payment is no number is answered with the
  non-numerical message, whatever its schedule; a request whose asking price and down
  payment convert and whose schedule is unknown is answered with the schedule message,
  whatever its amortization period; and a period that is no number is answered with the
  non-numerical message once the schedule is known.
\<close>

theorem payment_amount_validation_order:
  "(map_of kvs ''asking price'' = Some v1 \<and> py_float v1 = Inl ValueError \<longrightarrow>
      payment_amount s (JObj kvs) =
        Inr (JObj [(''payment amount'', JStr ''Error: non-numerical values are given'')]))
   \<and> (map_of kvs ''asking price'' = Some v1 \<and> py_float v1 = Inr a
        \<and> map_of kvs ''down payment'' = Some v2 \<and> py_float v2 = Inl ValueError \<longrightarrow>
      payment_amount s (JObj kvs) =
        Inr (JObj [(''payment amount'', JStr ''Error: non-numerical values are given'')]))
   \<and> (map_of kvs ''asking price'' = Some v1 \<and> py_float v1 = Inr a
        \<and> map_of kvs ''down payment'' = Some v2 \<and> py_float v2 = Inr d
        \<and> map_of kvs ''payment schedule'' = Some (JStr sch)
        \<and> map_of NUMBER_OF_PAYMENT_PER_YEAR sch = None \<longrightarrow>
      payment_amount s (JObj kvs) = Inr (JObj [(''payment amount'', JStr schedule_message)]))
   \<and> (map_of kvs ''asking price'' = Some v1 \<and> py_float v1 = Inr a
        \<and> map_of kvs ''down payment'' = Some v2 \<and> py_float v2 = Inr d
        \<and> map_of kvs ''payment schedule'' = Some (JStr sch)
        \<and> map_of NUMBER_OF_PAYMENT_PER_YEAR sch = Some ppy
        \<and> map_of kvs ''amortization period'' = Some v4 \<and> py_float v4 = Inl ValueError \<longrightarrow>
      payment_amount s (JObj kvs) =
        Inr (JObj [(''payment amount'', JStr ''Error: non-numerical values are given'')]))"
  by (simp add: payment_amount_def payment_amount_try_def ebind_Inl ebind_Inr)

theorem payment_amount_validation_order_witness:
  "payment_amount initial_state
     (JObj [(''asking price'', JStr ''abc''), (''down payment'', JNum (Fin 20000)),
            (''payment schedule'', JStr ''daily''), (''amortization period'', JNum (Fin 10))])
     = Inr (JObj [(''payment amount'', JStr ''Error: non-numerical values are given'')])
   \<and> payment_amount initial_state
     (JObj [(''asking price'', JNum (Fin 100000)), (''down payment'', JStr ''abc''),
            (''payment schedule'', JStr ''daily''), (''amortization period'', JNum (Fin 10))])
     = Inr (JObj [(''payment amount'', JStr ''Error: non-numerical values are given'')])
   \<and> payment_amount initial_state
     (JObj [(''asking price'', JNum (Fin 100000)), (''down payment'', JNum (Fin 20000)),
            (''payment schedule'', JStr ''daily''), (''amortization period'', JStr ''abc'')])
     = Inr (JObj [(''payment amount'', JStr schedule_message)])
   \<and> payment_amount initial_state
     (JObj [(''asking price'', JNum (Fin 100000)), (''down payment'', JNum (Fin 20000)),
            (''payment schedule'', JStr ''monthly''), (''amortization period'', JStr ''abc'')])
     = Inr (JObj [(''payment amount'', JStr ''Error: non-numerical values are given'')])"
  using
    payment_amount_validation_order [of
      "[(''asking price'', JStr ''abc''), (''down payment'', JNum (Fin 20000)),
        (''payment schedule'', JStr ''daily''), (''amortization period'', JNum (Fin 10))]"
      "JStr ''abc''" initial_state]
    payment_amount_validation_order [of
      "[(''asking price'', JNum (Fin 100000)), (''down payment'', JStr ''abc''),
        (''payment schedule'', JStr ''daily''), (''amortization period'', JNum (Fin 10))]"
      "JNum (Fin 100000)" initial_state "Fin 100000" "JStr ''abc''"]
    payment_amount_validation_order [of
      "[(''asking price'', JNum (Fin 100000)), (''down payment'', JNum (Fin 20000)),
        (''payment schedule'', JStr ''daily''), (''amortization period'', JStr ''abc'')]"
      "JNum (Fin 100000)" initial_state "Fin 100000" "JNum (Fin 20000)" "Fin 20000" "''daily''"]
    payment_amount_validation_order [of
      "[(''asking price'', JNum (Fin 100000)), (''down payment'', JNum (Fin 20000)),
        (''payment schedule'', JStr ''monthly''), (''amortization period'', JStr ''abc'')]"
      "JNum (Fin 100000)" initial_state "Fin 100000" "JNum (Fin 20000)" "Fin 20000" "''monthly''"
      12 "JStr ''abc''"]
  by (simp add: float_of_string_abc NUMBER_OF_PAYMENT_PER_YEAR_def)

text \<open>
  Claim C7 as stated fails: with an unknown schedule and a period that is no number, the
  answer is the schedule message.
\<close>

theorem payment_amount_validation_order_counterexample:
  "payment_amount initial_state unparsed_period_request =
     Inr (JObj [(''payment amount'', JStr schedule_message)])
   \<and> payment_amount initial_state unparsed_period_request \<noteq>
     Inr (JObj [(''payment amount'', JStr ''Error: non-numerical values are given'')])"
  by (simp add: unparsed_period_request_def payment_amount_def payment_amount_try_def
        ebind_Inl ebind_Inr NUMBER_OF_PAYMENT_PER_YEAR_def schedule_message_def)

section \<open>The amortization period\<close>

text \<open>
  Claim C8, as amended. In a request to \<^verbatim>\<open>payment_amount\<close> or to \<^verbatim>\<open>mortgage_amount\<close>
  whose other numeric fields convert (an absent down payment of \<^verbatim>\<open>mortgage_amount\<close>
  counts as 0) and whose schedule is a key of the table, an amortization period that
  converts to a float outside [5, 25] is answered with the message that the given value
  is not allowed.
\<close>

theorem amortization_out_of_range:
  assumes "map_of kvs ''asking price'' = Some v1" and "py_float v1 = Inr a"
    and "map_of kvs ''down payment'' = Some v2" and "py_float v2 = Inr d"
    and "map_of kvs ''payment schedule'' = Some (JStr sch)"
    and "map_of NUMBER_OF_PAYMENT_PER_YEAR sch = Some ppy"
    and "map_of kvs ''amortization period'' = Some v4" and "py_float v4 = Inr y"
    and "\<not> (fle (Fin 5) y \<and> fle y (Fin 25))"
    and "map_of kvs' ''payment amount'' = Some w1" and "py_float w1 = Inr a'"
    and "(case map_of kvs' ''down payment'' of None \<Rightarrow> Inr (Fin 0) | Some w2 \<Rightarrow> py_float w2)
           = Inr d'"
    and "map_of kvs' ''payment schedule'' = Some (JStr sch')"
    and "map_of NUMBER_OF_PAYMENT_PER_YEAR sch' = Some ppy'"
    and "map_of kvs' ''amortization period'' = Some w4" and "py_float w4 = Inr y'"
    and "\<not> (fle (Fin 5) y' \<and> fle y' (Fin 25))"
  shows "payment_amount s (JObj kvs) =
           Inr (JObj [(''payment amount'', JStr ''Error: given value is not allowed'')])
         \<and> mortgage_amount s (JObj kvs') =
           Inr (JObj [(''mortgage amount'', JStr ''Error: given value is not allowed'')])"
proof
  show "payment_amount s (JObj kvs) =
      Inr (JObj [(''payment amount'', JStr ''Error: given value is not allowed'')])"
    using assms(1-9)
    by (simp add: payment_amount_def payment_amount_try_def ebind_Inl ebind_Inr)
  show "mortgage_amount s (JObj kvs') =
      Inr (JObj [(''mortgage amount'', JStr ''Error: given value is not allowed'')])"
  proof (cases "map_of kvs' ''down payment''")
    case None
    then show ?thesis
      using assms(10-17)
      by (simp add: mortgage_amount_def mortgage_amount_try_def ebind_Inl ebind_Inr
            rnd_checked_0)
  next
    case (Some w2)
    then show ?thesis
      using assms(10-17)
      by (simp add: mortgage_amount_def mortgage_amount_try_def ebind_Inl ebind_Inr
            rnd_checked_0)
  qed
qed

theorem amortization_out_of_range_witness:
  "payment_amount initial_state
     (JObj [(''asking price'', JNum (Fin 100000)), (''down payment'', JNum (Fin 20000)),
            (''payment schedule'', JStr ''monthly''), (''amortization period'', JNum (Fin 30))])
     = Inr (JObj [(''payment amount'', JStr ''Error: given value is not allowed'')])
   \<and> mortgage_amount initial_state
     (JObj [(''payment amount'', JNum (Fin 3010)), (''payment schedule'', JStr ''weekly''),
            (''amortization period'', JNum (Fin 4))])
     = Inr (JObj [(''mortgage amount'', JStr ''Error: given value is not allowed'')])"
  by (rule amortization_out_of_range [where ?v1.0 = "JNum (Fin 100000)"
        and ?v2.0 = "JNum (Fin 20000)" and sch = "''monthly''" and ppy = 12
        and ?v4.0 = "JNum (Fin 30)" and ?w1.0 = "JNum (Fin 3010)" and sch' = "''weekly''"
        and ppy' = 52 and ?w4.0 = "JNum (Fin 4)" and y = "Fin 30" and y' = "Fin 4"
        and a = "Fin 100000" and d = "Fin 20000" and a' = "Fin 3010" and d' = "Fin 0"])
    (simp_all add: NUMBER_OF_PAYMENT_PER_YEAR_def)

text \<open>
  Claim C8 as stated fails: the schedule is looked up before the period is compared, so
  a period of 30 years with the schedule \<^verbatim>\<open>daily\<close> is answered with the schedule message.
\<close>

theorem amortization_out_of_range_counterexample:
  "payment_amount initial_state long_period_request =
     Inr (JObj [(''payment amount'', JStr schedule_message)])
   \<and> payment_amount initial_state long_period_request \<noteq>
     Inr (JObj [(''payment amount'', JStr ''Error: given value is not allowed'')])"
  by (simp add: long_period_request_def payment_amount_def payment_amount_try_def
        ebind_Inl ebind_Inr NUMBER_OF_PAYMENT_PER_YEAR_def schedule_message_def)

section \<open>A missing field\<close>

text \<open>
  Claim C10, as amended. A request to \<^verbatim>\<open>payment_amount\<close> or \<^verbatim>\<open>mortgage_amount\<close> that is
  a JSON object without one of the required fields is answered with the schedule message,
  provided every field read before the missing one is present and converts (the fields
  are read in the order asking price or payment amount, down payment, schedule, period;
  an absent down payment of \<^verbatim>\<open>mortgage_amount\<close> counts as 0). In particular this holds
  whenever the asking price, or the payment amount, is the missing field.
\<close>

theorem missing_field_message:
  "(map_of kvs ''asking price'' = None \<longrightarrow>
      payment_amount s (JObj kvs) = Inr (JObj [(''payment amount'', JStr schedule_message)]))
   \<and> (map_of kvs ''asking price'' = Some v1 \<and> py_float v1 = Inr a
        \<and> map_of kvs ''down payment'' = None \<longrightarrow>
      payment_amount s (JObj kvs) = Inr (JObj [(''payment amount'', JStr schedule_message)]))
   \<and> (map_of kvs ''asking price'' = Some v1 \<and> py_float v1 = Inr a
        \<and> map_of kvs ''down payment'' = Some v2 \<and> py_float v2 = Inr d
        \<and> map_of kvs ''payment schedule'' = None \<longrightarrow>
      payment_amount s (JObj kvs) = Inr (JObj [(''payment amount'', JStr schedule_message)]))
   \<and> (map_of kvs ''asking price'' = Some v1 \<and> py_float v1 = Inr a
        \<and> map_of kvs ''down payment'' = Some v2 \<and> py_float v2 = Inr d
        \<and> map_of kvs ''payment schedule'' = Some v3 \<and> payments_per_year v3 = Inr ppy
        \<and> map_of kvs ''amortization period'' = None \<longrightarrow>
      payment_amount s (JObj kvs) = Inr (JObj [(''payment amount'', JStr schedule_message)]))
   \<and> (map_of kvs ''payment amount'' = None \<longrightarrow>
      mortgage_amount s (JObj kvs) = Inr (JObj [(''mortgage amount'', JStr schedule_message)]))
   \<and> (map_of kvs ''payment amount'' = Some v1 \<and> py_float v1 = Inr a
        \<and> (case map_of kvs ''down payment'' of None \<Rightarrow> Inr (Fin 0) | Some w \<Rightarrow> py_float w)
            = Inr d
        \<and> map_of kvs ''payment schedule'' = None \<longrightarrow>
      mortgage_amount s (JObj kvs) = Inr (JObj [(''mortgage amount'', JStr schedule_message)]))
   \<and> (map_of kvs ''payment amount'' = Some v1 \<and> py_float v1 = Inr a
        \<and> (case map_of kvs ''down payment'' of None \<Rightarrow> Inr (Fin 0) | Some w \<Rightarrow> py_float w)
            = Inr d
        \<and> map_of kvs ''payment schedule'' = Some v3 \<and> payments_per_year v3 = Inr ppy
        \<and> map_of kvs ''amortization period'' = None \<longrightarrow>
      mortgage_amount s (JObj kvs) = Inr (JObj [(''mortgage amount'', JStr schedule_message)]))"
  by (cases "map_of kvs ''down payment''")
    (simp_all add: payment_amount_def payment_amount_try_def mortgage_amount_def
       mortgage_amount_try_def ebind_Inl ebind_Inr rnd_checked_0)

theorem missing_field_message_witness:
  "payment_amount initial_state
     (JObj [(''down payment'', JNum (Fin 20000)), (''payment schedule'', JStr ''monthly''),
            (''amortization period'', JNum (Fin 10))])
     = Inr (JObj [(''payment amount'', JStr schedule_message)])
   \<and> payment_amount initial_state
     (JObj [(''asking price'', JNum (Fin 100000)), (''payment schedule'', JStr ''monthly''),
            (''amortization period'', JNum (Fin 10))])
     = Inr (JObj [(''payment amount'', JStr schedule_message)])
   \<and> payment_amount initial_state
     (JObj [(''asking price'', JNum (Fin 100000)), (''down payment'', JNum (Fin 20000)),
            (''amortization period'', JNum (Fin 10))])
     = Inr (JObj [(''payment amount'', JStr schedule_message)])
   \<and> payment_amount initial_state
     (JObj [(''asking price'', JNum (Fin 100000)), (''down payment'', JNum (Fin 20000)),
            (''payment schedule'', JStr ''monthly'')])
     = Inr (JObj [(''payment amount'', JStr schedule_message)])
   \<and> mortgage_amount initial_state
     (JObj [(''payment schedule'', JStr ''monthly''), (''amortization period'', JNum (Fin 10))])
     = Inr (JObj [(''mortgage amount'', JStr schedule_message)])
   \<and> mortgage_amount initial_state
     (JObj [(''payment amount'', JNum (Fin 3010)), (''amortization period'', JNum (Fin 10))])
     = Inr (JObj [(''mortgage amount'', JStr schedule_message)])
   \<and> mortgage_amount initial_state
     (JObj [(''payment amount'', JNum (Fin 3010)), (''payment schedule'', JStr ''monthly'')])
     = Inr (JObj [(''mortgage amount'', JStr schedule_message)])"
  using
    missing_field_message [where s = initial_state and kvs =
      "[(''down payment'', JNum (Fin 20000)), (''payment schedule'', JStr ''monthly''),
        (''amortization period'', JNum (Fin 10))]"]
    missing_field_message [where s = initial_state and kvs =
      "[(''asking price'', JNum (Fin 100000)), (''payment schedule'', JStr ''monthly''),
        (''amortization period'', JNum (Fin 10))]"
      and ?v1.0 = "JNum (Fin 100000)" and a = "Fin 100000"]
    missing_field_message [where s = initial_state and kvs =
      "[(''asking price'', JNum (Fin 100000)), (''down payment'', JNum (Fin 20000)),
        (''amortization period'', JNum (Fin 10))]"
      and ?v1.0 = "JNum (Fin 100000)" and a = "Fin 100000"
      and ?v2.0 = "JNum (Fin 20000)" and d = "Fin 20000"]
    missing_field_message [where s = initial_state and kvs =
      "[(''asking price'', JNum (Fin 100000)), (''down payment'', JNum (Fin 20000)),
        (''payment schedule'', JStr ''monthly'')]"
      and ?v1.0 = "JNum (Fin 100000)" and a = "Fin 100000"
      and ?v2.0 = "JNum (Fin 20000)" and d = "Fin 20000"
      and ?v3.0 = "JStr ''monthly''" and ppy = "Fin 12"]
    missing_field_message [where s = initial_state and kvs =
      "[(''payment schedule'', JStr ''monthly''), (''amortization period'', JNum (Fin 10))]"]
    missing_field_message [where s = initial_state and kvs =
      "[(''payment amount'', JNum (Fin 3010)), (''amortization period'', JNum (Fin 10))]"
      and ?v1.0 = "JNum (Fin 3010)" and a = "Fin 3010" and d = "Fin 0"]
    missing_field_message [where s = initial_state and kvs =
      "[(''payment amount'', JNum (Fin 3010)), (''payment schedule'', JStr ''monthly'')]"
      and ?v1.0 = "JNum (Fin 3010)" and a = "Fin 3010" and d = "Fin 0"
      and ?v3.0 = "JStr ''monthly''" and ppy = "Fin 12"]
  by (simp add: NUMBER_OF_PAYMENT_PER_YEAR_def)

text \<open>
  Claim C10 as stated fails: a request without an amortization period whose asking price
  is no number is answered with the non-numerical message, since the asking price is
  converted first.
\<close>

theorem missing_field_message_counterexample:
  "subscript no_period_request ''amortization period'' = Inl KeyError
   \<and> payment_amount initial_state no_period_request =
     Inr (JObj [(''payment amount'', JStr ''Error: non-numerical values are given'')])
   \<and> payment_amount initial_state no_period_request \<noteq>
     Inr (JObj [(''payment amount'', JStr schedule_message)])"
  by (simp add: no_period_request_def payment_amount_def payment_amount_try_def
        ebind_Inl ebind_Inr float_of_string_abc schedule_message_def)

end
